theory Spec2Isabelle
  imports Main
begin

section \<open>Python values and built-ins used by check\_genomes.py\<close>

text \<open>
  The script handles text, the objects that \<^verbatim>\<open>json.loads\<close> builds, and exceptions.
  Python text is modelled as \<^typ>\<open>string\<close>; a character stands for one code point
  below 256. A finite float is sign, mantissa and binary exponent (the value
  \<open>mantissa * 2 ^ exponent\<close>), which is exact for every IEEE double; only its
  conversion by \<^verbatim>\<open>int()\<close> is needed.
\<close>

datatype pyfloat =
    Finite (negative: bool) (mantissa: nat) (exponent: int)
  | PosInf
  | NegInf
  | NaN

datatype pyval =
    PNone
  | PBool bool
  | PInt int
  | PFloat pyfloat
  | PStr string
  | PList "pyval list"
  | PDict "(string \<times> pyval) list"

text \<open>
  Exception classes, each with its ancestors in method resolution order, so that an
  \<^verbatim>\<open>except C\<close> clause is a test on the class of the raised object. The field
  \<open>message\<close> is what \<^verbatim>\<open>str(e)\<close> gives.
\<close>

datatype exn_class =
    BaseException | Exception | KeyboardInterrupt | SystemExit
  | OSError | FileNotFoundError | PermissionError
  | ValueError | JSONDecodeError | TypeError
  | LookupError | KeyError
  | ArithmeticError | OverflowError
  | AttributeError
  | NameError | UnboundLocalError
  | RuntimeError | RecursionError
  | MemoryError

fun mro :: "exn_class \<Rightarrow> exn_class list" where
  "mro BaseException = [BaseException]"
| "mro Exception = [Exception, BaseException]"
| "mro KeyboardInterrupt = [KeyboardInterrupt, BaseException]"
| "mro SystemExit = [SystemExit, BaseException]"
| "mro OSError = [OSError, Exception, BaseException]"
| "mro FileNotFoundError = [FileNotFoundError, OSError, Exception, BaseException]"
| "mro PermissionError = [PermissionError, OSError, Exception, BaseException]"
| "mro ValueError = [ValueError, Exception, BaseException]"
| "mro JSONDecodeError = [JSONDecodeError, ValueError, Exception, BaseException]"
| "mro TypeError = [TypeError, Exception, BaseException]"
| "mro LookupError = [LookupError, Exception, BaseException]"
| "mro KeyError = [KeyError, LookupError, Exception, BaseException]"
| "mro ArithmeticError = [ArithmeticError, Exception, BaseException]"
| "mro OverflowError = [OverflowError, ArithmeticError, Exception, BaseException]"
| "mro AttributeError = [AttributeError, Exception, BaseException]"
| "mro NameError = [NameError, Exception, BaseException]"
| "mro UnboundLocalError = [UnboundLocalError, NameError, Exception, BaseException]"
| "mro RuntimeError = [RuntimeError, Exception, BaseException]"
| "mro RecursionError = [RecursionError, RuntimeError, Exception, BaseException]"
| "mro MemoryError = [MemoryError, Exception, BaseException]"

datatype exn = Exn (cls: exn_class) (message: string)

definition isinstance :: "exn \<Rightarrow> exn_class \<Rightarrow> bool" where
  "isinstance e c = (c \<in> set (mro (cls e)))"

subsection \<open>Text\<close>

definition quote :: string where
  "quote = [CHR 0x27]"

text \<open>\<^verbatim>\<open>str.isspace\<close> on code points below 256, and \<^verbatim>\<open>str.strip()\<close>.\<close>

definition isspace :: "char \<Rightarrow> bool" where
  "isspace c =
     (let n = (of_char c :: nat)
      in (9 \<le> n \<and> n \<le> 13) \<or> (28 \<le> n \<and> n \<le> 32) \<or> n = 133 \<or> n = 160)"

definition strip :: "string \<Rightarrow> string" where
  "strip s = rev (dropWhile isspace (rev (dropWhile isspace s)))"

text \<open>\<^verbatim>\<open>sep.join(parts)\<close>.\<close>

fun join :: "string \<Rightarrow> string list \<Rightarrow> string" where
  "join sep [] = []"
| "join sep [x] = x"
| "join sep (x # y # ys) = x @ sep @ join sep (y # ys)"

text \<open>Decimal rendering of an integer, as \<^verbatim>\<open>str(n)\<close> and an f-string give it.\<close>

definition digit_char :: "nat \<Rightarrow> char" where
  "digit_char d = char_of (48 + d)"

fun str_nat :: "nat \<Rightarrow> string" where
  "str_nat n = (if n < 10 then [digit_char n] else str_nat (n div 10) @ [digit_char (n mod 10)])"

declare str_nat.simps [simp del]

definition str_int :: "int \<Rightarrow> string" where
  "str_int i = (if i < 0 then CHR ''-'' # str_nat (nat (- i)) else str_nat (nat i))"

subsection \<open>The conversion int()\<close>

text \<open>
  \<^verbatim>\<open>int(s)\<close> on text, base 10: optional surrounding whitespace, an optional sign,
  then decimal digits in which single underscores may separate digits. The whitespace
  accepted here is the ASCII set and the non-ASCII spaces; the separators 28 to 31 are
  whitespace for \<^verbatim>\<open>strip\<close> but not for \<^verbatim>\<open>int\<close>. More than
  \<open>int_max_str_digits\<close> digits are refused (the interpreter's default limit).
\<close>

definition int_isspace :: "char \<Rightarrow> bool" where
  "int_isspace c =
     (let n = (of_char c :: nat)
      in (9 \<le> n \<and> n \<le> 13) \<or> n = 32 \<or> n = 133 \<or> n = 160)"

definition isdecimal :: "char \<Rightarrow> bool" where
  "isdecimal c = (let n = (of_char c :: nat) in 48 \<le> n \<and> n \<le> 57)"

definition digit_value :: "char \<Rightarrow> int" where
  "digit_value c = int (of_char c) - 48"

definition int_max_str_digits :: nat where
  "int_max_str_digits = 4300"

fun adjacent_underscores :: "string \<Rightarrow> bool" where
  "adjacent_underscores (a # b # r) =
     ((a = CHR ''_'' \<and> b = CHR ''_'') \<or> adjacent_underscores (b # r))"
| "adjacent_underscores _ = False"

definition decimal_value :: "string \<Rightarrow> int" where
  "decimal_value ds = foldl (\<lambda>acc c. 10 * acc + digit_value c) 0 ds"

datatype int_literal = Literal int | Invalid | TooLong nat

definition parse_int :: "string \<Rightarrow> int_literal" where
  "parse_int s =
     (let s1 = dropWhile int_isspace s;
          neg = (s1 \<noteq> [] \<and> hd s1 = CHR ''-'');
          s2 = (if s1 \<noteq> [] \<and> (hd s1 = CHR ''+'' \<or> hd s1 = CHR ''-'') then tl s1 else s1);
          body = takeWhile (\<lambda>c. isdecimal c \<or> c = CHR ''_'') s2;
          rest = dropWhile (\<lambda>c. isdecimal c \<or> c = CHR ''_'') s2;
          ds = filter isdecimal body
      in if body = [] \<or> hd body = CHR ''_'' \<or> last body = CHR ''_''
            \<or> adjacent_underscores body then Invalid
         else if int_max_str_digits < length ds then TooLong (length ds)
         else if dropWhile int_isspace rest \<noteq> [] then Invalid
         else Literal (if neg then - decimal_value ds else decimal_value ds))"

text \<open>\<^verbatim>\<open>int(x)\<close> on a finite float truncates toward zero.\<close>

definition trunc_float :: "bool \<Rightarrow> nat \<Rightarrow> int \<Rightarrow> int" where
  "trunc_float ng m e =
     (let q = (if 0 \<le> e then int m * 2 ^ nat e else int m div 2 ^ nat (- e))
      in if ng then - q else q)"

fun type_name :: "pyval \<Rightarrow> string" where
  "type_name PNone = ''NoneType''"
| "type_name (PBool _) = ''bool''"
| "type_name (PInt _) = ''int''"
| "type_name (PFloat _) = ''float''"
| "type_name (PStr _) = ''str''"
| "type_name (PList _) = ''list''"
| "type_name (PDict _) = ''dict''"

section \<open>The environment of the script\<close>

text \<open>
  The script reaches outside itself in four places, all of them library code: it
  parses the command line with \<^verbatim>\<open>argparse\<close>, it starts the external tool with
  \<^verbatim>\<open>subprocess.run\<close>, it decodes text with \<^verbatim>\<open>json.loads\<close>, and its
  f-strings render decoded values. Each is a field of the environment, so that every
  theorem holds whatever the tool prints and whatever the decoder answers. A call
  either returns (\<open>Inr\<close>) or raises (\<open>Inl\<close>).
\<close>

record completed_process =
  returncode :: int
  stdout :: string
  stderr :: string

text \<open>
  The arguments of the one \<^verbatim>\<open>subprocess.run\<close> call. The script passes
  \<^verbatim>\<open>capture_output\<close>, \<^verbatim>\<open>text\<close> and \<^verbatim>\<open>check\<close>; \<open>shell\<close> is not
  passed and keeps the library's default.
\<close>

record run_call =
  args :: "string list"
  capture_output :: bool
  text_mode :: bool
  check :: bool
  shell :: bool

text \<open>
  The outcome of \<^verbatim>\<open>parser.parse_args()\<close> for the parser declared on lines 108 to
  115 (one positional argument, \<^verbatim>\<open>species_name\<close>, and the help option that
  \<^verbatim>\<open>argparse\<close> adds): either the species name, or the end of the process with a
  status, which \<^verbatim>\<open>argparse\<close> does itself after printing the help text (status 0)
  or a usage error (status 2). The text that \<^verbatim>\<open>argparse\<close> prints is left out.
\<close>

datatype parse_result = Parsed string | ParserExit int

record env =
  parse_args :: "string list \<Rightarrow> parse_result"
  subprocess_run :: "run_call \<Rightarrow> exn + completed_process"
  json_loads :: "string \<Rightarrow> exn + pyval"
  repr_ext :: "pyval \<Rightarrow> string"

text \<open>
  What the script does that can be observed: lines printed to a stream (without the
  newline that \<^verbatim>\<open>print\<close> appends) and the child process it starts. Printing
  itself is taken to succeed.
\<close>

datatype stream = Stdout | Stderr

datatype event = Print stream string | Run run_call

definition newline :: string where
  "newline = [CHR 0x0A]"

text \<open>
  \<^verbatim>\<open>repr\<close> and \<^verbatim>\<open>str\<close> of a decoded value: written out for None, booleans and
  integers, taken from the environment for floats, quoted text, lists and dicts.
\<close>

definition py_repr :: "env \<Rightarrow> pyval \<Rightarrow> string" where
  "py_repr E v =
     (case v of
        PNone \<Rightarrow> ''None''
      | PBool b \<Rightarrow> (if b then ''True'' else ''False'')
      | PInt n \<Rightarrow> str_int n
      | _ \<Rightarrow> repr_ext E v)"

definition py_str :: "env \<Rightarrow> pyval \<Rightarrow> string" where
  "py_str E v = (case v of PStr s \<Rightarrow> s | _ \<Rightarrow> py_repr E v)"

text \<open>\<^verbatim>\<open>isinstance(v, int)\<close>: \<^verbatim>\<open>bool\<close> is a subclass of \<^verbatim>\<open>int\<close>.\<close>

fun is_int :: "pyval \<Rightarrow> bool" where
  "is_int (PInt _) = True"
| "is_int (PBool _) = True"
| "is_int _ = False"

definition py_int :: "env \<Rightarrow> pyval \<Rightarrow> exn + int" where
  "py_int E v =
     (case v of
        PInt n \<Rightarrow> Inr n
      | PBool b \<Rightarrow> Inr (if b then 1 else 0)
      | PFloat f \<Rightarrow>
          (case f of
             Finite ng m e \<Rightarrow> Inr (trunc_float ng m e)
           | NaN \<Rightarrow> Inl (Exn ValueError ''cannot convert float NaN to integer'')
           | _ \<Rightarrow> Inl (Exn OverflowError ''cannot convert float infinity to integer''))
      | PStr s \<Rightarrow>
          (case parse_int s of
             Literal n \<Rightarrow> Inr n
           | Invalid \<Rightarrow>
               Inl (Exn ValueError (''invalid literal for int() with base 10: '' @ py_repr E v))
           | TooLong n \<Rightarrow>
               Inl (Exn ValueError
                 (''Exceeds the limit ('' @ str_nat int_max_str_digits
                  @ '' digits) for integer string conversion: value has '' @ str_nat n
                  @ '' digits; use sys.set_int_max_str_digits() to increase the limit'')))
      | _ \<Rightarrow>
          Inl (Exn TypeError
            (''int() argument must be a string, a bytes-like object or a real number, not ''
             @ quote @ type_name v @ quote)))"

text \<open>
  \<^verbatim>\<open>data.get(key, default)\<close>: a lookup with a default on a dict, an
  \<^verbatim>\<open>AttributeError\<close> on every other decoded value.
\<close>

fun py_get :: "pyval \<Rightarrow> string \<Rightarrow> pyval \<Rightarrow> exn + pyval" where
  "py_get (PDict kvs) k d = Inr (case map_of kvs k of Some v \<Rightarrow> v | None \<Rightarrow> d)"
| "py_get v k d =
     Inl (Exn AttributeError
       (quote @ type_name v @ quote @ '' object has no attribute '' @ quote @ ''get'' @ quote))"

text \<open>Truth value of a decoded value (\<^verbatim>\<open>not x\<close>) and the comparison \<^verbatim>\<open>x == 0\<close>.\<close>

fun truthy :: "pyval \<Rightarrow> bool" where
  "truthy PNone = False"
| "truthy (PBool b) = b"
| "truthy (PInt n) = (n \<noteq> 0)"
| "truthy (PFloat (Finite ng m e)) = (m \<noteq> 0)"
| "truthy (PFloat _) = True"
| "truthy (PStr s) = (s \<noteq> [])"
| "truthy (PList xs) = (xs \<noteq> [])"
| "truthy (PDict kvs) = (kvs \<noteq> [])"

fun eq_zero :: "pyval \<Rightarrow> bool" where
  "eq_zero (PInt n) = (n = 0)"
| "eq_zero (PBool b) = (\<not> b)"
| "eq_zero (PFloat (Finite ng m e)) = (m = 0)"
| "eq_zero _ = False"

section \<open>check\_genome\_count\<close>

text \<open>The argument vector built on lines 29 to 38.\<close>

definition command :: "string \<Rightarrow> string list" where
  "command species_name =
     [''datasets'', ''summary'', ''genome'', ''taxon'', species_name,
      ''--report'', ''counts'',
      ''--assembly-level'', ''complete'',
      ''--assembly-source'', ''RefSeq'']"

definition run_args :: "string \<Rightarrow> run_call" where
  "run_args species_name =
     \<lparr>args = command species_name, capture_output = True, text_mode = True,
      check = False, shell = False\<rparr>"

text \<open>
  Lines 70 to 79: an \<^verbatim>\<open>int\<close> is returned as it is; anything else is reported and
  converted, and a \<^verbatim>\<open>ValueError\<close> or \<^verbatim>\<open>TypeError\<close> of the conversion gives 0.
  Any other exception of the conversion leaves the block.
\<close>

definition convert_count :: "env \<Rightarrow> pyval \<Rightarrow> event list \<times> (exn + pyval)" where
  "convert_count E count =
     (if is_int count then ([], Inr count)
      else
        (let warning = Print Stderr
               (''Warning: '' @ quote @ ''total_count'' @ quote
                @ '' field was not an integer. Value: '' @ py_str E count)
         in (case py_int E count of
               Inr n \<Rightarrow> ([warning], Inr (PInt n))
             | Inl e \<Rightarrow>
                 (if isinstance e ValueError \<or> isinstance e TypeError
                  then ([warning,
                         Print Stderr
                           (''Could not convert '' @ quote @ ''total_count'' @ quote
                            @ '' to integer.'')],
                        Inr (PInt 0))
                  else ([warning], Inl e)))))"

text \<open>
  Lines 85 to 93, the handler of \<^verbatim>\<open>KeyError\<close>. The variable \<^verbatim>\<open>data\<close> is bound
  only once \<^verbatim>\<open>json.loads\<close> has returned (\<open>None\<close> here is the unbound variable,
  whose use raises \<^verbatim>\<open>UnboundLocalError\<close>).
\<close>

definition key_error_handler :: "env \<Rightarrow> pyval option \<Rightarrow> event list \<times> (exn + pyval)" where
  "key_error_handler E data =
     (let p1 = Print Stderr
            (''Error: '' @ quote @ ''total_count'' @ quote
             @ '' key not found in NCBI datasets output.'')
      in (case data of
            None \<Rightarrow>
              ([p1],
               Inl (Exn UnboundLocalError
                 (''cannot access local variable '' @ quote @ ''data'' @ quote
                  @ '' where it is not associated with a value'')))
          | Some d \<Rightarrow>
              (let p2 = Print Stderr (''Received JSON data:'' @ newline @ py_str E d)
               in (case py_get d ''count'' (PInt 0) of
                     Inl e \<Rightarrow> ([p1, p2], Inl e)
                   | Inr c \<Rightarrow>
                       (if \<not> eq_zero c then ([p1, p2], Inr PNone)
                        else
                          (case py_get d ''reports'' PNone of
                             Inl e \<Rightarrow> ([p1, p2], Inl e)
                           | Inr r \<Rightarrow>
                               (if \<not> truthy r
                                then ([p1, p2,
                                       Print Stdout
                                         (''Interpreting lack of '' @ quote @ ''total_count''
                                          @ quote @ '' as 0 assemblies found.'')],
                                      Inr (PInt 0))
                                else ([p1, p2], Inr PNone))))))))"

text \<open>
  The \<^verbatim>\<open>except\<close> clauses of the inner \<^verbatim>\<open>try\<close> (lines 81 and 85), tried in order
  on an exception raised by lines 66 to 79; an exception that matches neither leaves
  the inner \<^verbatim>\<open>try\<close>.
\<close>

definition inner_except :: "env \<Rightarrow> string \<Rightarrow> pyval option \<Rightarrow> exn \<Rightarrow> event list \<times> (exn + pyval)" where
  "inner_except E out data e =
     (if isinstance e JSONDecodeError
      then ([Print Stderr ''Error: Failed to decode JSON output from NCBI datasets.'',
             Print Stderr (''Received output:'' @ newline @ out)],
            Inr PNone)
      else if isinstance e KeyError then key_error_handler E data
      else ([], Inl e))"

text \<open>Lines 65 to 93: decode the output and read \<^verbatim>\<open>total_count\<close>, default 0.\<close>

definition parse_output :: "env \<Rightarrow> string \<Rightarrow> event list \<times> (exn + pyval)" where
  "parse_output E out =
     (case json_loads E out of
        Inl e \<Rightarrow> inner_except E out None e
      | Inr data \<Rightarrow>
          (case py_get data ''total_count'' (PInt 0) of
             Inl e \<Rightarrow> inner_except E out (Some data) e
           | Inr count \<Rightarrow>
               (case convert_count E count of
                  (evs, Inr v) \<Rightarrow> (evs, Inr v)
                | (evs, Inl e) \<Rightarrow>
                    (case inner_except E out (Some data) e of
                       (evs', r) \<Rightarrow> (evs @ evs', r)))))"

text \<open>Lines 50 to 93: what is made of a finished child process.\<close>

definition interpret_result :: "env \<Rightarrow> string \<Rightarrow> completed_process \<Rightarrow> event list \<times> (exn + pyval)" where
  "interpret_result E species_name result =
     (if returncode result \<noteq> 0
      then ([Print Stderr ''Error running NCBI datasets command:'',
             Print Stderr (''Command: '' @ join '' '' (command species_name)),
             Print Stderr (''Return Code: '' @ str_int (returncode result)),
             Print Stderr (''Stderr: '' @ strip (stderr result))],
            Inr PNone)
      else if strip (stdout result) = []
      then ([Print Stderr
               (''No output received from NCBI datasets for '' @ quote @ species_name @ quote
                @ ''. Perhaps the species name is misspelled or has no matching assemblies?'')],
            Inr (PInt 0))
      else parse_output E (stdout result))"

text \<open>
  The body of the outer \<^verbatim>\<open>try\<close> (lines 42 to 93), then its \<^verbatim>\<open>except\<close>
  clauses (lines 95 and 100). The result is \<open>Inr\<close> of the returned value, \<open>PNone\<close>
  being the error marker, or \<open>Inl\<close> of an exception that no clause caught.
\<close>

definition try_body :: "env \<Rightarrow> string \<Rightarrow> event list \<times> (exn + pyval)" where
  "try_body E species_name =
     (case subprocess_run E (run_args species_name) of
        Inl e \<Rightarrow> ([Run (run_args species_name)], Inl e)
      | Inr result \<Rightarrow>
          (case interpret_result E species_name result of
             (evs, r) \<Rightarrow> (Run (run_args species_name) # evs, r)))"

definition check_genome_count :: "env \<Rightarrow> string \<Rightarrow> event list \<times> (exn + pyval)" where
  "check_genome_count E species_name =
     (let greeting = Print Stdout
            (''Checking RefSeq for complete genomes of: '' @ quote @ species_name @ quote)
      in (case try_body E species_name of
            (evs, Inr v) \<Rightarrow> (greeting # evs, Inr v)
          | (evs, Inl e) \<Rightarrow>
              (if isinstance e FileNotFoundError
               then (greeting # evs @
                     [Print Stderr (''Error: The '' @ quote @ ''datasets'' @ quote
                                    @ '' command was not found.''),
                      Print Stderr ''Please ensure the NCBI Datasets command line tool is installed and in your PATH.'',
                      Print Stderr (''(It should be included via the conda environment '' @ quote
                                    @ ''ncbi-datasets-cli'' @ quote @ '')'')],
                     Inr PNone)
               else if isinstance e Exception
               then (greeting # evs @
                     [Print Stderr (''An unexpected error occurred: '' @ message e)],
                     Inr PNone)
               else (greeting # evs, Inl e))))"

section \<open>main\<close>

text \<open>
  The process ends with the status given to \<^verbatim>\<open>sys.exit\<close>, or with an exception
  that nothing caught.
\<close>

datatype process_end = Exit int | Uncaught exn

text \<open>Lines 119 to 128: run the query for the parsed species name and report.\<close>

definition main_body :: "env \<Rightarrow> string \<Rightarrow> event list \<times> process_end" where
  "main_body E species_name =
     (case check_genome_count E species_name of
        (evs, Inl e) \<Rightarrow> (evs, Uncaught e)
      | (evs, Inr genome_count) \<Rightarrow>
          (if genome_count \<noteq> PNone
           then (evs @
                 [Print Stdout
                    (''Found '' @ py_str E genome_count @ '' complete RefSeq genome(s) for ''
                     @ quote @ species_name @ quote @ ''.'')],
                 Exit 0)
           else (evs @
                 [Print Stdout
                    (''Failed to retrieve genome count for '' @ quote @ species_name @ quote
                     @ ''.'')],
                 Exit 1)))"

text \<open>
  Lines 108 to 128, on the command-line arguments after the program name. When
  \<^verbatim>\<open>parse_args\<close> ends the process, \<open>check_genome_count\<close> is not called.
\<close>

definition main :: "env \<Rightarrow> string list \<Rightarrow> event list \<times> process_end" where
  "main E argv =
     (case parse_args E argv of
        ParserExit status \<Rightarrow> ([], Exit status)
      | Parsed species_name \<Rightarrow> main_body E species_name)"

text \<open>Projections of a run: the lines printed on a stream, and the processes started.\<close>

fun printed :: "stream \<Rightarrow> event list \<Rightarrow> string list" where
  "printed st [] = []"
| "printed st (Print st' l # evs) = (if st' = st then l # printed st evs else printed st evs)"
| "printed st (Run c # evs) = printed st evs"

fun started :: "event list \<Rightarrow> run_call list" where
  "started [] = []"
| "started (Run c # evs) = c # started evs"
| "started (Print st l # evs) = started evs"

section \<open>Example environments\<close>

text \<open>
  Concrete environments on which the theorems below are exercised: a tool that exits
  with a given status and output, which the decoder turns into a given value, and a
  launch that raises.
\<close>

definition sample_repr :: "pyval \<Rightarrow> string" where
  "sample_repr v =
     (case v of
        PFloat PosInf \<Rightarrow> ''inf''
      | PFloat NegInf \<Rightarrow> ''-inf''
      | PFloat NaN \<Rightarrow> ''nan''
      | PStr s \<Rightarrow> quote @ s @ quote
      | _ \<Rightarrow> ''...'')"

definition expecting_value :: exn where
  "expecting_value = Exn JSONDecodeError ''Expecting value: line 1 column 1 (char 0)''"

text \<open>
  A parser for the examples. It answers as \<^verbatim>\<open>argparse\<close> does on the command
  lines used below: the help option alone ends the process with status 0, a single
  argument that does not begin with a dash is the species name, and no argument or
  several plain arguments are a usage error with status 2. Command lines with other
  arguments that begin with a dash are not used below; this parser refuses them with
  status 2.
\<close>

definition sample_parse_args :: "string list \<Rightarrow> parse_result" where
  "sample_parse_args argv =
     (if argv = [''--help''] \<or> argv = [''-h''] then ParserExit 0
      else
        (case argv of
           [s] \<Rightarrow> (if s \<noteq> [] \<and> hd s = CHR ''-'' then ParserExit 2 else Parsed s)
         | _ \<Rightarrow> ParserExit 2))"

definition tool_env :: "int \<Rightarrow> string \<Rightarrow> string \<Rightarrow> exn + pyval \<Rightarrow> env" where
  "tool_env rc out err decoded =
     \<lparr>parse_args = sample_parse_args,
      subprocess_run = (\<lambda>c. Inr \<lparr>returncode = rc, stdout = out, stderr = err\<rparr>),
      json_loads = (\<lambda>t. if t = out then decoded else Inl expecting_value),
      repr_ext = sample_repr\<rparr>"

definition launch_fault_env :: "exn \<Rightarrow> env" where
  "launch_fault_env e =
     \<lparr>parse_args = sample_parse_args,
      subprocess_run = (\<lambda>c. Inl e),
      json_loads = (\<lambda>t. Inl expecting_value),
      repr_ext = sample_repr\<rparr>"

definition failing_tool_env :: env where
  "failing_tool_env = tool_env 1 [] '' Error: taxon not found '' (Inl expecting_value)"

definition silent_tool_env :: env where
  "silent_tool_env = tool_env 0 ('' '' @ newline) [] (Inl expecting_value)"

definition garbage_env :: env where
  "garbage_env = tool_env 0 ''not json'' [] (Inl expecting_value)"

definition array_env :: env where
  "array_env = tool_env 0 ''[1, 2]'' [] (Inr (PList [PInt 1, PInt 2]))"

definition empty_object_env :: env where
  "empty_object_env = tool_env 0 ''{}'' [] (Inr (PDict []))"

definition reports_doc :: "(string \<times> pyval) list" where
  "reports_doc = [(''count'', PInt 3), (''reports'', PList [PDict []])]"

definition reports_env :: env where
  \<open>reports_env = tool_env 0 ''{"count": 3, "reports": [{}]}'' [] (Inr (PDict reports_doc))\<close>

definition negative_count_env :: env where
  \<open>negative_count_env =
     tool_env 0 ''{"total_count": -5}'' [] (Inr (PDict [(''total_count'', PInt (- 5))]))\<close>

definition fractional_count_env :: env where
  \<open>fractional_count_env =
     tool_env 0 ''{"total_count": -2.5}'' []
       (Inr (PDict [(''total_count'', PFloat (Finite True 5 (- 1)))]))\<close>

definition infinite_count_env :: env where
  \<open>infinite_count_env =
     tool_env 0 ''{"total_count": 1e999}'' [] (Inr (PDict [(''total_count'', PFloat PosInf)]))\<close>

definition missing_tool_env :: env where
  "missing_tool_env =
     launch_fault_env
       (Exn FileNotFoundError
          (''[Errno 2] No such file or directory: '' @ quote @ ''datasets'' @ quote))"

definition denied_env :: env where
  "denied_env =
     launch_fault_env
       (Exn PermissionError (''[Errno 13] Permission denied: '' @ quote @ ''datasets'' @ quote))"

text \<open>
  A hundred thousand opening brackets: not a JSON document, and the decoder gives up
  on it with \<^verbatim>\<open>RecursionError\<close> before it reports a syntax error.
\<close>

definition deep_array_text :: string where
  "deep_array_text = replicate 100000 (CHR ''['')"

definition recursion_error :: exn where
  "recursion_error =
     Exn RecursionError
       ''maximum recursion depth exceeded while decoding a JSON array from a unicode string''"

definition deep_array_env :: env where
  "deep_array_env = tool_env 0 deep_array_text [] (Inl recursion_error)"

section \<open>Basic facts\<close>

lemmas run_defs =
  check_genome_count_def try_body_def interpret_result_def parse_output_def
  inner_except_def key_error_handler_def convert_count_def py_int_def py_str_def py_repr_def
  isinstance_def strip_def isspace_def Let_def tool_env_def launch_fault_env_def
  sample_repr_def expecting_value_def sample_parse_args_def

text \<open>Stripping leaves nothing exactly when every character is whitespace.\<close>

lemma strip_Nil_iff: "strip s = [] \<longleftrightarrow> (\<forall>c\<in>set s. isspace c)"
  by (metis dropWhile_eq_Nil_conv dropWhile_idem set_empty set_rev strip_def)

lemma started_append: "started (xs @ ys) = started xs @ started ys"
  by (induction xs rule: started.induct) simp_all

lemma printed_append: "printed st (xs @ ys) = printed st xs @ printed st ys"
  by (induction st xs rule: printed.induct) simp_all

text \<open>The two ways the outer \<^verbatim>\<open>try\<close> is entered: the child finished, or the launch raised.\<close>

lemma check_genome_count_completed:
  assumes "subprocess_run E (run_args S) = Inr r"
  shows "check_genome_count E S =
    (let greeting = Print Stdout
            (''Checking RefSeq for complete genomes of: '' @ quote @ S @ quote)
     in case interpret_result E S r of
       (evs, Inr v) \<Rightarrow> (greeting # Run (run_args S) # evs, Inr v)
     | (evs, Inl e) \<Rightarrow>
         (if isinstance e FileNotFoundError
          then (greeting # Run (run_args S) # evs @
                [Print Stderr (''Error: The '' @ quote @ ''datasets'' @ quote
                               @ '' command was not found.''),
                 Print Stderr ''Please ensure the NCBI Datasets command line tool is installed and in your PATH.'',
                 Print Stderr (''(It should be included via the conda environment '' @ quote
                               @ ''ncbi-datasets-cli'' @ quote @ '')'')],
                Inr PNone)
          else if isinstance e Exception
          then (greeting # Run (run_args S) # evs @
                [Print Stderr (''An unexpected error occurred: '' @ message e)],
                Inr PNone)
          else (greeting # Run (run_args S) # evs, Inl e)))"
  using assms
  by (simp add: check_genome_count_def try_body_def Let_def split: sum.splits prod.splits)

lemma check_genome_count_launch_fault:
  assumes "subprocess_run E (run_args S) = Inl e"
  shows "check_genome_count E S =
    (let greeting = Print Stdout
            (''Checking RefSeq for complete genomes of: '' @ quote @ S @ quote)
     in if isinstance e FileNotFoundError
        then ([greeting, Run (run_args S),
               Print Stderr (''Error: The '' @ quote @ ''datasets'' @ quote
                             @ '' command was not found.''),
               Print Stderr ''Please ensure the NCBI Datasets command line tool is installed and in your PATH.'',
               Print Stderr (''(It should be included via the conda environment '' @ quote
                             @ ''ncbi-datasets-cli'' @ quote @ '')'')],
              Inr PNone)
        else if isinstance e Exception
        then ([greeting, Run (run_args S),
               Print Stderr (''An unexpected error occurred: '' @ message e)],
              Inr PNone)
        else ([greeting, Run (run_args S)], Inl e))"
  using assms
  by (simp add: check_genome_count_def try_body_def Let_def)

subsection \<open>Child processes started\<close>

lemma started_convert_count: "started (fst (convert_count E c)) = []"
  by (simp add: convert_count_def Let_def split: sum.splits)

lemma started_key_error_handler: "started (fst (key_error_handler E d)) = []"
  by (simp add: key_error_handler_def Let_def split: sum.splits option.splits)

lemma started_inner_except: "started (fst (inner_except E out d e)) = []"
  by (simp add: inner_except_def started_key_error_handler)

lemma started_parse_output: "started (fst (parse_output E out)) = []"
  by (auto simp add: parse_output_def started_append split: sum.splits prod.splits
      dest: arg_cong [where f = "\<lambda>p. started (fst p)"]
      simp: started_inner_except started_convert_count)

lemma started_interpret_result: "started (fst (interpret_result E S r)) = []"
  by (simp add: interpret_result_def started_parse_output)

lemma started_try_body: "started (fst (try_body E S)) = [run_args S]"
  using started_interpret_result [of E S]
  by (auto simp add: try_body_def split: sum.splits prod.splits
      dest: arg_cong [where f = "\<lambda>p. started (fst p)"])

lemma started_check_genome_count: "started (fst (check_genome_count E S)) = [run_args S]"
  using started_try_body [of E S]
  by (auto simp add: check_genome_count_def Let_def started_append split: sum.splits prod.splits)

subsection \<open>Values returned\<close>

lemma is_int_cases: "is_int v \<Longrightarrow> (\<exists>n. v = PInt n) \<or> (\<exists>b. v = PBool b)"
  by (cases v) simp_all

lemma convert_count_returns: "convert_count E c = (evs, Inr v) \<Longrightarrow> is_int v"
  by (auto simp add: convert_count_def Let_def split: if_splits sum.splits)

lemma key_error_handler_returns:
  "key_error_handler E d = (evs, Inr v) \<Longrightarrow> v = PNone \<or> v = PInt 0"
  by (auto simp add: key_error_handler_def Let_def split: if_splits sum.splits option.splits)

lemma inner_except_returns:
  "inner_except E out d e = (evs, Inr v) \<Longrightarrow> v = PNone \<or> v = PInt 0"
  by (auto simp add: inner_except_def split: if_splits dest: key_error_handler_returns)

lemma parse_output_returns:
  "parse_output E out = (evs, Inr v) \<Longrightarrow> is_int v \<or> v = PNone"
  by (auto simp add: parse_output_def split: sum.splits prod.splits
      dest: inner_except_returns convert_count_returns)

lemma interpret_result_returns:
  "interpret_result E S r = (evs, Inr v) \<Longrightarrow> is_int v \<or> v = PNone"
  by (auto simp add: interpret_result_def split: if_splits dest: parse_output_returns)

lemma try_body_returns:
  "try_body E S = (evs, Inr v) \<Longrightarrow> is_int v \<or> v = PNone"
  by (auto simp add: try_body_def split: sum.splits prod.splits dest: interpret_result_returns)

lemma check_genome_count_returns:
  "check_genome_count E S = (evs, Inr v) \<Longrightarrow> is_int v \<or> v = PNone"
  by (auto simp add: check_genome_count_def Let_def split: sum.splits prod.splits if_splits
      dest: try_body_returns)

subsection \<open>Exceptions that leave a block\<close>

lemma py_int_raises: "py_int E c = Inl e \<Longrightarrow> isinstance e Exception"
  by (auto simp add: py_int_def isinstance_def
      split: pyval.splits pyfloat.splits int_literal.splits)

lemma py_get_raises: "py_get d k x = Inl e \<Longrightarrow> isinstance e Exception"
  by (cases d) (auto simp add: isinstance_def)

lemma convert_count_raises: "convert_count E c = (evs, Inl e) \<Longrightarrow> isinstance e Exception"
  by (auto simp add: convert_count_def Let_def split: if_splits sum.splits dest: py_int_raises)

lemma key_error_handler_raises:
  "key_error_handler E d = (evs, Inl e) \<Longrightarrow> isinstance e Exception"
  by (auto simp add: key_error_handler_def Let_def isinstance_def
      split: if_splits sum.splits option.splits dest: py_get_raises)

lemma inner_except_raises:
  "inner_except E out d e = (evs, Inl e') \<Longrightarrow> isinstance e Exception \<Longrightarrow> isinstance e' Exception"
  by (auto simp add: inner_except_def split: if_splits dest: key_error_handler_raises)

lemma parse_output_raises:
  assumes "parse_output E out = (evs, Inl e)"
    and "\<forall>e. json_loads E out = Inl e \<longrightarrow> isinstance e Exception"
  shows "isinstance e Exception"
  using assms
  by (auto simp add: parse_output_def split: sum.splits prod.splits
      dest: inner_except_raises py_get_raises convert_count_raises)

lemma interpret_result_raises:
  assumes "interpret_result E S r = (evs, Inl e)"
    and "\<forall>e. json_loads E (stdout r) = Inl e \<longrightarrow> isinstance e Exception"
  shows "isinstance e Exception"
  using assms
  by (auto simp add: interpret_result_def split: if_splits dest: parse_output_raises)

lemma try_body_raises:
  assumes "try_body E S = (evs, Inl e)"
    and "\<forall>c e. subprocess_run E c = Inl e \<longrightarrow> isinstance e Exception"
    and "\<forall>t e. json_loads E t = Inl e \<longrightarrow> isinstance e Exception"
  shows "isinstance e Exception"
  using assms
  by (auto simp add: try_body_def split: sum.splits prod.splits dest: interpret_result_raises)

lemma check_genome_count_returns_value:
  assumes "\<forall>c e. subprocess_run E c = Inl e \<longrightarrow> isinstance e Exception"
    and "\<forall>t e. json_loads E t = Inl e \<longrightarrow> isinstance e Exception"
  shows "\<exists>evs v. check_genome_count E S = (evs, Inr v)"
proof (cases "try_body E S")
  case (Pair evs r)
  show ?thesis
  proof (cases r)
    case (Inl e)
    with Pair assms have "isinstance e Exception"
      by (auto dest: try_body_raises)
    with Pair Inl show ?thesis
      by (simp add: check_genome_count_def Let_def)
  next
    case (Inr v)
    with Pair show ?thesis
      by (simp add: check_genome_count_def Let_def)
  qed
qed

subsection \<open>The error marker comes with a diagnostic\<close>

lemma key_error_handler_prints: "printed Stderr (fst (key_error_handler E d)) \<noteq> []"
  by (simp add: key_error_handler_def Let_def split: option.splits sum.splits)

lemma inner_except_prints:
  "inner_except E out d e = (evs, Inr v) \<Longrightarrow> printed Stderr evs \<noteq> []"
  using key_error_handler_prints [of E d]
  by (auto simp add: inner_except_def split: if_splits)

lemma parse_output_none_prints:
  "parse_output E out = (evs, Inr PNone) \<Longrightarrow> printed Stderr evs \<noteq> []"
  by (auto simp add: parse_output_def printed_append split: sum.splits prod.splits
      dest: inner_except_prints convert_count_returns)

lemma interpret_result_none_prints:
  "interpret_result E S r = (evs, Inr PNone) \<Longrightarrow> printed Stderr evs \<noteq> []"
  by (auto simp add: interpret_result_def split: if_splits dest: parse_output_none_prints)

lemma try_body_none_prints:
  "try_body E S = (evs, Inr PNone) \<Longrightarrow> printed Stderr evs \<noteq> []"
  by (auto simp add: try_body_def split: sum.splits prod.splits
      dest: interpret_result_none_prints)

lemma check_genome_count_none_prints:
  "check_genome_count E S = (evs, Inr PNone) \<Longrightarrow> printed Stderr evs \<noteq> []"
  by (auto simp add: check_genome_count_def Let_def printed_append
      split: sum.splits prod.splits if_splits dest: try_body_none_prints)

lemma decode_fault_is_error:
  assumes "subprocess_run E (run_args S) = Inr r" and "returncode r = 0"
    and "strip (stdout r) \<noteq> []"
    and "json_loads E (stdout r) = Inl e" and "isinstance e Exception"
  shows "snd (check_genome_count E S) = Inr PNone"
  using assms
  by (simp add: check_genome_count_completed interpret_result_def parse_output_def
      inner_except_def key_error_handler_def isinstance_def Let_def)

subsection \<open>The field total\_count\<close>

lemma total_count_int_is_returned:
  assumes "subprocess_run E (run_args S) = Inr r" and "returncode r = 0"
    and "strip (stdout r) \<noteq> []"
    and "json_loads E (stdout r) = Inr (PDict kvs)"
    and "map_of kvs ''total_count'' = Some (PInt n)"
  shows "check_genome_count E S =
     ([Print Stdout (''Checking RefSeq for complete genomes of: '' @ quote @ S @ quote),
       Run (run_args S)],
      Inr (PInt n))"
  using assms
  by (simp add: check_genome_count_completed interpret_result_def parse_output_def
      convert_count_def Let_def)

lemma total_count_converted:
  assumes "subprocess_run E (run_args S) = Inr r" and "returncode r = 0"
    and "strip (stdout r) \<noteq> []"
    and "json_loads E (stdout r) = Inr (PDict kvs)"
    and "map_of kvs ''total_count'' = Some c" and "\<not> is_int c"
    and "py_int E c = Inr n"
  shows "check_genome_count E S =
     ([Print Stdout (''Checking RefSeq for complete genomes of: '' @ quote @ S @ quote),
       Run (run_args S),
       Print Stderr
         (''Warning: '' @ quote @ ''total_count'' @ quote
          @ '' field was not an integer. Value: '' @ py_str E c)],
      Inr (PInt n))"
  using assms
  by (simp add: check_genome_count_completed interpret_result_def parse_output_def
      convert_count_def Let_def)

lemma total_count_unconvertible:
  assumes "subprocess_run E (run_args S) = Inr r" and "returncode r = 0"
    and "strip (stdout r) \<noteq> []"
    and "json_loads E (stdout r) = Inr (PDict kvs)"
    and "map_of kvs ''total_count'' = Some c" and "\<not> is_int c"
    and "py_int E c = Inl e" and "isinstance e ValueError \<or> isinstance e TypeError"
  shows "check_genome_count E S =
     ([Print Stdout (''Checking RefSeq for complete genomes of: '' @ quote @ S @ quote),
       Run (run_args S),
       Print Stderr
         (''Warning: '' @ quote @ ''total_count'' @ quote
          @ '' field was not an integer. Value: '' @ py_str E c),
       Print Stderr (''Could not convert '' @ quote @ ''total_count'' @ quote @ '' to integer.'')],
      Inr (PInt 0))"
  using assms
  by (simp add: check_genome_count_completed interpret_result_def parse_output_def
      convert_count_def Let_def)

lemma total_count_overflow:
  assumes "subprocess_run E (run_args S) = Inr r" and "returncode r = 0"
    and "strip (stdout r) \<noteq> []"
    and "json_loads E (stdout r) = Inr (PDict kvs)"
    and "map_of kvs ''total_count'' = Some c" and "\<not> is_int c"
    and "py_int E c = Inl e" and "cls e = OverflowError"
  shows "check_genome_count E S =
     ([Print Stdout (''Checking RefSeq for complete genomes of: '' @ quote @ S @ quote),
       Run (run_args S),
       Print Stderr
         (''Warning: '' @ quote @ ''total_count'' @ quote
          @ '' field was not an integer. Value: '' @ py_str E c),
       Print Stderr (''An unexpected error occurred: '' @ message e)],
      Inr PNone)"
  using assms
  by (simp add: check_genome_count_completed interpret_result_def parse_output_def
      convert_count_def inner_except_def isinstance_def Let_def)

lemma py_int_float: "py_int E (PFloat (Finite ng m e)) = Inr (trunc_float ng m e)"
  by (simp add: py_int_def)

lemma py_int_infinity:
  "py_int E (PFloat PosInf) = Inl (Exn OverflowError ''cannot convert float infinity to integer'')"
  "py_int E (PFloat NegInf) = Inl (Exn OverflowError ''cannot convert float infinity to integer'')"
  by (simp_all add: py_int_def)

lemma parse_int_examples:
  "parse_int ''5'' = Literal 5"
  "parse_int '' 1_523 '' = Literal 1523"
  "parse_int ''-7'' = Literal (- 7)"
  "parse_int ''abc'' = Invalid"
  "parse_int ''5.0'' = Invalid"
  "parse_int [] = Invalid"
  by (simp_all add: parse_int_def int_isspace_def isdecimal_def decimal_value_def
      digit_value_def int_max_str_digits_def Let_def)

subsection \<open>The exit status\<close>

lemma main_body_exit_0:
  "snd (main_body E S) = Exit 0 \<longleftrightarrow> (\<exists>v. snd (check_genome_count E S) = Inr v \<and> v \<noteq> PNone)"
  by (cases "check_genome_count E S") (auto simp add: main_body_def split: sum.splits)

lemma main_body_exit_1:
  "snd (main_body E S) = Exit 1 \<longleftrightarrow> snd (check_genome_count E S) = Inr PNone"
  by (cases "check_genome_count E S") (auto simp add: main_body_def split: sum.splits)

lemma main_parsed: "parse_args E argv = Parsed S \<Longrightarrow> main E argv = main_body E S"
  by (simp add: main_def)

lemma main_parser_exit: "parse_args E argv = ParserExit n \<Longrightarrow> main E argv = ([], Exit n)"
  by (simp add: main_def)

lemma sample_parse_args_name:
  "parse_args (tool_env rc out err d) [''Escherichia coli''] = Parsed ''Escherichia coli''"
  "parse_args (tool_env rc out err d) [''Nonexistent species''] = Parsed ''Nonexistent species''"
  "parse_args (launch_fault_env e) [''Escherichia coli''] = Parsed ''Escherichia coli''"
  by (simp_all add: tool_env_def launch_fault_env_def sample_parse_args_def)

subsection \<open>A decoder that gives up\<close>

text \<open>
  An exception of the decoder that is an \<^verbatim>\<open>Exception\<close> but none of the classes
  named by the first three \<^verbatim>\<open>except\<close> clauses reaches the last clause.
\<close>

lemma decode_fault_generic:
  assumes "subprocess_run E (run_args S) = Inr r" and "returncode r = 0"
    and "strip (stdout r) \<noteq> []"
    and "json_loads E (stdout r) = Inl e"
    and "\<not> isinstance e JSONDecodeError" and "\<not> isinstance e KeyError"
    and "\<not> isinstance e FileNotFoundError" and "isinstance e Exception"
  shows "check_genome_count E S =
     ([Print Stdout (''Checking RefSeq for complete genomes of: '' @ quote @ S @ quote),
       Run (run_args S),
       Print Stderr (''An unexpected error occurred: '' @ message e)],
      Inr PNone)"
  using assms
  by (simp add: check_genome_count_completed interpret_result_def parse_output_def
      inner_except_def Let_def)

lemma undecodable_output_prints_raw:
  assumes "subprocess_run E (run_args S) = Inr r" and "returncode r = 0"
    and "strip (stdout r) \<noteq> []"
    and "json_loads E (stdout r) = Inl e" and "isinstance e JSONDecodeError"
  shows "snd (check_genome_count E S) = Inr PNone
    \<and> printed Stderr (fst (check_genome_count E S)) =
        [''Error: Failed to decode JSON output from NCBI datasets.'',
         ''Received output:'' @ newline @ stdout r]"
  using assms
  by (simp add: check_genome_count_completed interpret_result_def parse_output_def
      inner_except_def Let_def)

subsection \<open>An object without total\_count\<close>

text \<open>
  The field is read with a default, so an object without it gives the count 0 with no
  line on standard error, whatever else it holds.
\<close>

lemma missing_total_count_gives_zero:
  assumes "subprocess_run E (run_args S) = Inr r" and "returncode r = 0"
    and "strip (stdout r) \<noteq> []"
    and "json_loads E (stdout r) = Inr (PDict kvs)"
    and "map_of kvs ''total_count'' = None"
  shows "check_genome_count E S =
     ([Print Stdout (''Checking RefSeq for complete genomes of: '' @ quote @ S @ quote),
       Run (run_args S)],
      Inr (PInt 0))"
  using assms
  by (simp add: check_genome_count_completed interpret_result_def parse_output_def
      convert_count_def Let_def)

section \<open>The claims\<close>

subsection \<open>The command line\<close>

text \<open>
  Claim C8. For every species name \<open>S\<close> the argument vector is the fixed list of
  eleven tokens with \<open>S\<close> in the fifth place, whatever characters \<open>S\<close> contains:
  it is one list element and is never split or joined. Every run starts exactly one
  child process, with that vector, and with \<open>shell\<close> off, so no shell reads the
  line. Nothing of the environment enters the vector.
\<close>

theorem command_is_fixed_vector:
  "command S =
     [''datasets'', ''summary'', ''genome'', ''taxon'', S, ''--report'', ''counts'',
      ''--assembly-level'', ''complete'', ''--assembly-source'', ''RefSeq'']
   \<and> length (command S) = 11
   \<and> command S ! 4 = S
   \<and> started (fst (check_genome_count E S)) =
       [\<lparr>args = command S, capture_output = True, text_mode = True, check = False,
         shell = False\<rparr>]"
  by (simp add: started_check_genome_count run_args_def) (simp add: command_def)

theorem command_is_fixed_vector_witness:
  "command ''Escherichia coli'' ! 4 = ''Escherichia coli''
   \<and> map args (started (fst (check_genome_count empty_object_env ''Escherichia coli''))) =
       [[''datasets'', ''summary'', ''genome'', ''taxon'', ''Escherichia coli'',
         ''--report'', ''counts'', ''--assembly-level'', ''complete'',
         ''--assembly-source'', ''RefSeq'']]"
  using command_is_fixed_vector [of "''Escherichia coli''" empty_object_env]
  by simp

subsection \<open>A tool that fails\<close>

text \<open>
  Claim C6. When the child process ends with a non-zero status, the result is the
  error marker, and standard error receives four lines: a heading, the command line
  (the argument vector joined by spaces), the exit status in decimal, and the captured
  standard-error text with surrounding whitespace stripped. The branch does not look at
  standard output: another captured output and another decoder give the same run.
\<close>

theorem nonzero_exit_is_error:
  assumes "subprocess_run E (run_args S) = Inr r" and "returncode r \<noteq> 0"
  shows "snd (check_genome_count E S) = Inr PNone
    \<and> printed Stderr (fst (check_genome_count E S)) =
        [''Error running NCBI datasets command:'',
         ''Command: '' @ join '' '' (command S),
         ''Return Code: '' @ str_int (returncode r),
         ''Stderr: '' @ strip (stderr r)]
    \<and> check_genome_count
          (E\<lparr>subprocess_run := \<lambda>c. Inr (r\<lparr>stdout := out'\<rparr>), json_loads := loads'\<rparr>) S
        = check_genome_count E S"
  using assms
  by (simp add: check_genome_count_completed interpret_result_def Let_def)

theorem nonzero_exit_is_error_witness:
  "snd (check_genome_count failing_tool_env ''Escherichia coli'') = Inr PNone
   \<and> printed Stderr (fst (check_genome_count failing_tool_env ''Escherichia coli'')) =
       [''Error running NCBI datasets command:'',
        ''Command: datasets summary genome taxon Escherichia coli --report counts --assembly-level complete --assembly-source RefSeq'',
        ''Return Code: 1'',
        ''Stderr: Error: taxon not found'']"
proof -
  let ?r = "\<lparr>returncode = 1, stdout = [], stderr = '' Error: taxon not found ''\<rparr>"
  have run: "subprocess_run failing_tool_env (run_args ''Escherichia coli'') = Inr ?r"
    by (simp add: failing_tool_env_def tool_env_def)
  have status: "returncode ?r \<noteq> 0"
    by simp
  have "str_int 1 = ''1''"
    by code_simp
  moreover have "strip '' Error: taxon not found '' = ''Error: taxon not found''"
    by (simp add: strip_def isspace_def)
  ultimately show ?thesis
    using nonzero_exit_is_error [OF run status]
    by (simp add: command_def)
qed

subsection \<open>A tool that says nothing\<close>

text \<open>
  Claim C5. When the child process ends with status 0 and its captured output is
  empty or consists of whitespace only, the result is the count 0, not the error
  marker, and the one line on standard error says that the species name may be
  misspelled or have no matching assemblies.
\<close>

theorem blank_output_is_zero:
  assumes "subprocess_run E (run_args S) = Inr r" and "returncode r = 0"
    and "\<forall>c\<in>set (stdout r). isspace c"
  shows "check_genome_count E S =
     ([Print Stdout (''Checking RefSeq for complete genomes of: '' @ quote @ S @ quote),
       Run (run_args S),
       Print Stderr
         (''No output received from NCBI datasets for '' @ quote @ S @ quote
          @ ''. Perhaps the species name is misspelled or has no matching assemblies?'')],
      Inr (PInt 0))"
proof -
  from assms(3) have "strip (stdout r) = []"
    by (simp add: strip_Nil_iff)
  with assms(1,2) show ?thesis
    by (simp add: check_genome_count_completed interpret_result_def Let_def)
qed

theorem blank_output_is_zero_witness:
  "snd (check_genome_count silent_tool_env ''Nonexistent species'') = Inr (PInt 0)
   \<and> snd (main silent_tool_env [''Nonexistent species'']) = Exit 0"
proof -
  let ?r = "\<lparr>returncode = 0, stdout = '' '' @ newline, stderr = []\<rparr>"
  have run: "subprocess_run silent_tool_env (run_args ''Nonexistent species'') = Inr ?r"
    by (simp add: silent_tool_env_def tool_env_def)
  have status: "returncode ?r = 0"
    by simp
  have blank: "\<forall>c\<in>set (stdout ?r). isspace c"
    by (simp add: newline_def isspace_def)
  have "main silent_tool_env [''Nonexistent species'']
      = main_body silent_tool_env ''Nonexistent species''"
    by (simp add: main_parsed silent_tool_env_def sample_parse_args_name)
  then show ?thesis
    using blank_output_is_zero [OF run status blank]
    by (simp add: main_body_def)
qed

subsection \<open>Output that is not JSON\<close>

text \<open>
  Claim C7. When decoding raises \<^verbatim>\<open>JSONDecodeError\<close>, the result is the error
  marker and standard error receives a heading and the raw output
  (\<open>undecodable_output_prints_raw\<close>). The handler on line 81 names that class
  only, and the decoder fails on some texts with other exceptions. On a hundred
  thousand opening brackets, which are not a JSON document, it raises
  \<^verbatim>\<open>RecursionError\<close>: the result is still the error marker, but the exception
  reaches the last \<^verbatim>\<open>except\<close> clause and standard error receives the one generic
  line, which is shorter than the raw output and so does not include it.
\<close>

theorem deeply_nested_output_is_generic_error:
  "check_genome_count deep_array_env ''Escherichia coli'' =
     ([Print Stdout
         (''Checking RefSeq for complete genomes of: '' @ quote @ ''Escherichia coli'' @ quote),
       Run (run_args ''Escherichia coli''),
       Print Stderr
         ''An unexpected error occurred: maximum recursion depth exceeded while decoding a JSON array from a unicode string''],
      Inr PNone)
   \<and> length (concat (printed Stderr
         (fst (check_genome_count deep_array_env ''Escherichia coli'')))) < length deep_array_text"
proof -
  let ?r = "\<lparr>returncode = 0, stdout = deep_array_text, stderr = []\<rparr>"
  have run: "subprocess_run deep_array_env (run_args ''Escherichia coli'') = Inr ?r"
    by (simp add: deep_array_env_def tool_env_def)
  have status: "returncode ?r = 0"
    by simp
  have "\<not> isspace (CHR ''['')"
    by (simp add: isspace_def)
  then have nonblank: "strip (stdout ?r) \<noteq> []"
    by (simp add: strip_Nil_iff deep_array_text_def)
  have decode: "json_loads deep_array_env (stdout ?r) = Inl recursion_error"
    by (simp add: deep_array_env_def tool_env_def)
  have kind: "\<not> isinstance recursion_error JSONDecodeError"
    "\<not> isinstance recursion_error KeyError"
    "\<not> isinstance recursion_error FileNotFoundError"
    "isinstance recursion_error Exception"
    by (simp_all add: recursion_error_def isinstance_def)
  have size: "length deep_array_text = 100000"
    by (simp add: deep_array_text_def)
  show ?thesis
    using decode_fault_generic [OF run status nonblank decode kind] size
    by (simp add: recursion_error_def)
qed

subsection \<open>JSON that is not an object\<close>

text \<open>
  Claim C10. When the child process ends with status 0 and its output decodes to a
  value that is not an object (a list, a number, text, a boolean or null), the call
  of \<^verbatim>\<open>get\<close> raises \<^verbatim>\<open>AttributeError\<close>, which only the last handler catches:
  the result is the error marker, nothing is raised, and standard error receives the
  one generic line, not the lines of the decoding or missing-field handlers.
\<close>

theorem non_object_json_is_generic_error:
  assumes "subprocess_run E (run_args S) = Inr r" and "returncode r = 0"
    and "strip (stdout r) \<noteq> []"
    and "json_loads E (stdout r) = Inr v" and "\<forall>kvs. v \<noteq> PDict kvs"
  shows "check_genome_count E S =
     ([Print Stdout (''Checking RefSeq for complete genomes of: '' @ quote @ S @ quote),
       Run (run_args S),
       Print Stderr
         (''An unexpected error occurred: '' @ quote @ type_name v @ quote
          @ '' object has no attribute '' @ quote @ ''get'' @ quote)],
      Inr PNone)"
  using assms
  by (cases v)
     (simp_all add: check_genome_count_completed interpret_result_def parse_output_def
      inner_except_def isinstance_def Let_def)

theorem non_object_json_is_generic_error_witness:
  "snd (check_genome_count array_env ''Escherichia coli'') = Inr PNone
   \<and> printed Stderr (fst (check_genome_count array_env ''Escherichia coli'')) =
       [''An unexpected error occurred: '' @ quote @ ''list'' @ quote
        @ '' object has no attribute '' @ quote @ ''get'' @ quote]"
proof -
  let ?r = "\<lparr>returncode = 0, stdout = ''[1, 2]'', stderr = []\<rparr>"
  have run: "subprocess_run array_env (run_args ''Escherichia coli'') = Inr ?r"
    by (simp add: array_env_def tool_env_def)
  have status: "returncode ?r = 0"
    by simp
  have nonblank: "strip (stdout ?r) \<noteq> []"
    by (simp add: strip_def isspace_def)
  have decode: "json_loads array_env (stdout ?r) = Inr (PList [PInt 1, PInt 2])"
    by (simp add: array_env_def tool_env_def)
  have shape: "\<forall>kvs. PList [PInt 1, PInt 2] \<noteq> PDict kvs"
    by simp
  show ?thesis
    using non_object_json_is_generic_error [OF run status nonblank decode shape]
    by simp
qed

subsection \<open>An object without total\_count\<close>

text \<open>
  Claim C1. The test on \<open>count\<close> and \<open>reports\<close> is written in the handler of
  \<^verbatim>\<open>KeyError\<close> (lines 85 to 93), which ends with the error marker for a format
  it does not expect. Line 68 reads the field with
  \<^verbatim>\<open>data.get('total_count', 0)\<close>, which supplies 0 for a missing key and raises
  nothing, so that handler is never entered. On the object
  \<^verbatim>\<open>{"count": 3, "reports": [{}]}\<close> the claim says error marker with a
  diagnostic, and so does the handler itself when given that object; the run returns
  the count 0 and prints nothing on standard error.
\<close>

theorem reports_document_gives_zero:
  "map_of reports_doc ''total_count'' = None
   \<and> map_of reports_doc ''count'' = Some (PInt 3)
   \<and> map_of reports_doc ''reports'' = Some (PList [PDict []])
   \<and> check_genome_count reports_env ''Escherichia coli'' =
       ([Print Stdout
           (''Checking RefSeq for complete genomes of: '' @ quote @ ''Escherichia coli''
            @ quote),
         Run (run_args ''Escherichia coli'')],
        Inr (PInt 0))
   \<and> printed Stderr (fst (check_genome_count reports_env ''Escherichia coli'')) = []
   \<and> snd (key_error_handler reports_env (Some (PDict reports_doc))) = Inr PNone"
  by (simp add: reports_env_def reports_doc_def run_defs)

subsection \<open>The value returned\<close>

text \<open>
  Claim C2 says that the result is never negative. The code returns an integer
  \<open>total_count\<close> as it is, with no test of its sign: the object
  \<^verbatim>\<open>{"total_count": -5}\<close> gives the result \<open>- 5\<close>.
\<close>

theorem negative_count_counterexample:
  "snd (check_genome_count negative_count_env ''Escherichia coli'') = Inr (PInt (- 5))
   \<and> (- 5 :: int) < 0"
  by (simp add: negative_count_env_def run_defs)

text \<open>
  Claim C2, amended. Whatever the tool prints and the decoder answers, a value
  returned by \<open>check_genome_count\<close> is an integer (a Python \<^verbatim>\<open>int\<close>, which
  includes the booleans) or the error marker, never a fraction and never any other
  kind of value. An integer \<open>total_count\<close> is returned unchanged, negative ones
  included, and a finite fractional \<open>total_count\<close> is returned truncated toward
  zero.
\<close>

theorem result_is_integer_or_error_marker:
  "(\<forall>evs v. check_genome_count E S = (evs, Inr v) \<longrightarrow>
      (\<exists>n. v = PInt n) \<or> (\<exists>b. v = PBool b) \<or> v = PNone)
   \<and> (\<forall>r kvs. subprocess_run E (run_args S) = Inr r \<and> returncode r = 0
        \<and> strip (stdout r) \<noteq> [] \<and> json_loads E (stdout r) = Inr (PDict kvs) \<longrightarrow>
        (\<forall>n. map_of kvs ''total_count'' = Some (PInt n) \<longrightarrow>
           snd (check_genome_count E S) = Inr (PInt n))
        \<and> (\<forall>ng m e. map_of kvs ''total_count'' = Some (PFloat (Finite ng m e)) \<longrightarrow>
           snd (check_genome_count E S) = Inr (PInt (trunc_float ng m e))))"
proof (intro conjI allI impI)
  fix evs v
  assume "check_genome_count E S = (evs, Inr v)"
  then have "is_int v \<or> v = PNone"
    by (rule check_genome_count_returns)
  then show "(\<exists>n. v = PInt n) \<or> (\<exists>b. v = PBool b) \<or> v = PNone"
    by (auto dest: is_int_cases)
next
  fix r kvs n
  assume "subprocess_run E (run_args S) = Inr r \<and> returncode r = 0
        \<and> strip (stdout r) \<noteq> [] \<and> json_loads E (stdout r) = Inr (PDict kvs)"
    and "map_of kvs ''total_count'' = Some (PInt n)"
  then show "snd (check_genome_count E S) = Inr (PInt n)"
    by (simp add: total_count_int_is_returned)
next
  fix r kvs ng m e
  assume "subprocess_run E (run_args S) = Inr r \<and> returncode r = 0
        \<and> strip (stdout r) \<noteq> [] \<and> json_loads E (stdout r) = Inr (PDict kvs)"
    and "map_of kvs ''total_count'' = Some (PFloat (Finite ng m e))"
  then show "snd (check_genome_count E S) = Inr (PInt (trunc_float ng m e))"
    by (simp add: total_count_converted [where c = "PFloat (Finite ng m e)"] py_int_float)
qed

theorem result_is_integer_or_error_marker_witness:
  "snd (check_genome_count fractional_count_env ''Escherichia coli'') = Inr (PInt (- 2))"
proof -
  let ?r = "\<lparr>returncode = 0,
             stdout = [CHR ''{'', CHR 0x22] @ ''total_count'' @ [CHR 0x22] @ '': -2.5}'',
             stderr = []\<rparr>"
  let ?kvs = "[(''total_count'', PFloat (Finite True 5 (- 1)))]"
  have given: "subprocess_run fractional_count_env (run_args ''Escherichia coli'') = Inr ?r
      \<and> returncode ?r = 0 \<and> strip (stdout ?r) \<noteq> []
      \<and> json_loads fractional_count_env (stdout ?r) = Inr (PDict ?kvs)"
    by (simp add: fractional_count_env_def tool_env_def strip_def isspace_def)
  have field: "map_of ?kvs ''total_count'' = Some (PFloat (Finite True 5 (- 1)))"
    by simp
  have "trunc_float True 5 (- 1) = - 2"
    by (simp add: trunc_float_def)
  moreover have "snd (check_genome_count fractional_count_env ''Escherichia coli'')
      = Inr (PInt (trunc_float True 5 (- 1)))"
    using result_is_integer_or_error_marker [of fractional_count_env "''Escherichia coli''"]
      given field
    by blast
  ultimately show ?thesis
    by simp
qed

subsection \<open>A total\_count that is not an integer\<close>

text \<open>
  Claim C3 holds for the values it names: an integer is returned as it is
  (\<open>total_count_int_is_returned\<close>), a value that \<^verbatim>\<open>int()\<close> converts is returned
  converted after a warning (\<open>total_count_converted\<close>), and a value on which
  \<^verbatim>\<open>int()\<close> raises \<^verbatim>\<open>ValueError\<close> or \<^verbatim>\<open>TypeError\<close> gives 0 after the warning
  (\<open>total_count_unconvertible\<close>). The handler names only those two classes. An
  infinite float, which the decoder produces for \<^verbatim>\<open>1e999\<close> or \<^verbatim>\<open>Infinity\<close>,
  makes \<^verbatim>\<open>int()\<close> raise \<^verbatim>\<open>OverflowError\<close>; that exception passes the handler and
  reaches the last \<^verbatim>\<open>except\<close> clause, so the result is the error marker and not 0.
\<close>

theorem infinite_total_count_is_error:
  "check_genome_count infinite_count_env ''Escherichia coli'' =
     ([Print Stdout
         (''Checking RefSeq for complete genomes of: '' @ quote @ ''Escherichia coli'' @ quote),
       Run (run_args ''Escherichia coli''),
       Print Stderr
         (''Warning: '' @ quote @ ''total_count'' @ quote
          @ '' field was not an integer. Value: inf''),
       Print Stderr ''An unexpected error occurred: cannot convert float infinity to integer''],
      Inr PNone)"
  by (simp add: infinite_count_env_def run_defs)

subsection \<open>The exit status\<close>

text \<open>
  Claim C4 says that the exit status is 0 exactly when a genome count was determined.
  The command line is parsed first, and \<^verbatim>\<open>argparse\<close> ends the process itself:
  with \<^verbatim>\<open>--help\<close> the status is 0 although no query was made and no count
  determined (and a usage error gives status 2, which is neither of the two).
\<close>

theorem help_option_counterexample:
  "parse_args empty_object_env [''--help''] = ParserExit 0
   \<and> main empty_object_env [''--help''] = ([], Exit 0)
   \<and> started (fst (main empty_object_env [''--help''])) = []"
  by (simp add: main_def empty_object_env_def tool_env_def sample_parse_args_def)

text \<open>
  Claim C4, amended. Once the command line has been parsed into a species name, the
  process ends with status 0 exactly when \<open>check_genome_count\<close> returned a value
  other than the error marker, the count 0 included, and with status 1 exactly when
  it returned the error marker; a launch that raises \<^verbatim>\<open>FileNotFoundError\<close> (the
  executable is not on the search path) gives the error marker and status 1. When
  \<^verbatim>\<open>argparse\<close> ends the process instead (status 0 after the help option, 2 after
  a usage error), that status is the exit status and no query is made.
\<close>

theorem exit_status_follows_result:
  "(\<forall>S. parse_args E argv = Parsed S \<longrightarrow>
      (snd (main E argv) = Exit 0 \<longleftrightarrow>
         (\<exists>v. snd (check_genome_count E S) = Inr v \<and> v \<noteq> PNone))
      \<and> (snd (main E argv) = Exit 1 \<longleftrightarrow> snd (check_genome_count E S) = Inr PNone)
      \<and> (snd (check_genome_count E S) = Inr (PInt 0) \<longrightarrow> snd (main E argv) = Exit 0)
      \<and> (\<forall>e. subprocess_run E (run_args S) = Inl e \<and> isinstance e FileNotFoundError \<longrightarrow>
            snd (check_genome_count E S) = Inr PNone \<and> snd (main E argv) = Exit 1))
   \<and> (\<forall>n. parse_args E argv = ParserExit n \<longrightarrow>
         main E argv = ([], Exit n) \<and> started (fst (main E argv)) = [])"
proof (intro conjI allI impI)
  fix S
  assume parsed: "parse_args E argv = Parsed S"
  then have body: "main E argv = main_body E S"
    by (rule main_parsed)
  show "snd (main E argv) = Exit 0 \<longleftrightarrow>
      (\<exists>v. snd (check_genome_count E S) = Inr v \<and> v \<noteq> PNone)"
    by (simp add: body main_body_exit_0)
  show "snd (main E argv) = Exit 1 \<longleftrightarrow> snd (check_genome_count E S) = Inr PNone"
    by (simp add: body main_body_exit_1)
  show "snd (main E argv) = Exit 0" if "snd (check_genome_count E S) = Inr (PInt 0)"
    using that by (simp add: body main_body_exit_0)
  show missing: "snd (check_genome_count E S) = Inr PNone"
    if "subprocess_run E (run_args S) = Inl e \<and> isinstance e FileNotFoundError" for e
    using that by (simp add: check_genome_count_launch_fault Let_def)
  show "snd (main E argv) = Exit 1"
    if "subprocess_run E (run_args S) = Inl e \<and> isinstance e FileNotFoundError" for e
    using missing [OF that] by (simp add: body main_body_exit_1)
next
  fix n
  assume "parse_args E argv = ParserExit n"
  then have "main E argv = ([], Exit n)"
    by (rule main_parser_exit)
  then show "main E argv = ([], Exit n)" and "started (fst (main E argv)) = []"
    by simp_all
qed

theorem exit_status_follows_result_witness:
  "snd (check_genome_count missing_tool_env ''Escherichia coli'') = Inr PNone
   \<and> snd (main missing_tool_env [''Escherichia coli'']) = Exit 1"
proof -
  let ?e = "Exn FileNotFoundError
              (''[Errno 2] No such file or directory: '' @ quote @ ''datasets'' @ quote)"
  have parsed: "parse_args missing_tool_env [''Escherichia coli''] = Parsed ''Escherichia coli''"
    by (simp add: missing_tool_env_def sample_parse_args_name)
  have "subprocess_run missing_tool_env (run_args ''Escherichia coli'') = Inl ?e
      \<and> isinstance ?e FileNotFoundError"
    by (simp add: missing_tool_env_def launch_fault_env_def isinstance_def)
  then show ?thesis
    using exit_status_follows_result [of missing_tool_env "[''Escherichia coli'']"] parsed
    by blast
qed

subsection \<open>No fault escapes\<close>

text \<open>
  Claim C9. Let the launch and the decoder raise only instances of
  \<^verbatim>\<open>Exception\<close> (a missing executable, a refused launch, a decoding failure, or any
  other). Then \<open>check_genome_count\<close> always returns a value, the body of
  \<open>main\<close> always ends with status 0 or 1, and \<open>main\<close> ends with an exit
  status on every command line: nothing is left uncaught. Every return of the error
  marker has at least one line on standard error, and a launch that raises, a
  non-zero exit status and a decoder that raises each give the error marker.
\<close>

theorem no_fault_escapes:
  assumes "\<forall>c e. subprocess_run E c = Inl e \<longrightarrow> isinstance e Exception"
    and "\<forall>t e. json_loads E t = Inl e \<longrightarrow> isinstance e Exception"
  shows "(\<exists>evs v. check_genome_count E S = (evs, Inr v))
     \<and> (\<exists>evs. main_body E S = (evs, Exit 0) \<or> main_body E S = (evs, Exit 1))
     \<and> (\<forall>argv. parse_args E argv = Parsed S \<longrightarrow>
           (\<exists>evs. main E argv = (evs, Exit 0) \<or> main E argv = (evs, Exit 1)))
     \<and> (\<forall>argv n. parse_args E argv = ParserExit n \<longrightarrow> main E argv = ([], Exit n))
     \<and> (\<forall>evs. check_genome_count E S = (evs, Inr PNone) \<longrightarrow> printed Stderr evs \<noteq> [])
     \<and> (\<forall>e. subprocess_run E (run_args S) = Inl e \<longrightarrow>
           snd (check_genome_count E S) = Inr PNone)
     \<and> (\<forall>r. subprocess_run E (run_args S) = Inr r \<and> returncode r \<noteq> 0 \<longrightarrow>
           snd (check_genome_count E S) = Inr PNone)
     \<and> (\<forall>r e. subprocess_run E (run_args S) = Inr r \<and> returncode r = 0
           \<and> strip (stdout r) \<noteq> [] \<and> json_loads E (stdout r) = Inl e \<longrightarrow>
           snd (check_genome_count E S) = Inr PNone)"
proof (intro conjI allI impI)
  from assms obtain evs v where ret: "check_genome_count E S = (evs, Inr v)"
    using check_genome_count_returns_value by blast
  then show "\<exists>evs v. check_genome_count E S = (evs, Inr v)"
    by blast
  from ret show body: "\<exists>evs. main_body E S = (evs, Exit 0) \<or> main_body E S = (evs, Exit 1)"
    by (simp add: main_body_def)
  show "\<exists>evs. main E argv = (evs, Exit 0) \<or> main E argv = (evs, Exit 1)"
    if "parse_args E argv = Parsed S" for argv
    using body main_parsed [OF that] by simp
  show "main E argv = ([], Exit n)" if "parse_args E argv = ParserExit n" for argv n
    using that by (rule main_parser_exit)
next
  fix evs
  assume "check_genome_count E S = (evs, Inr PNone)"
  then show "printed Stderr evs \<noteq> []"
    by (rule check_genome_count_none_prints)
next
  fix e
  assume run: "subprocess_run E (run_args S) = Inl e"
  with assms(1) have "isinstance e Exception"
    by blast
  with run show "snd (check_genome_count E S) = Inr PNone"
    by (simp add: check_genome_count_launch_fault Let_def)
next
  fix r
  assume "subprocess_run E (run_args S) = Inr r \<and> returncode r \<noteq> 0"
  then show "snd (check_genome_count E S) = Inr PNone"
    by (simp add: check_genome_count_completed interpret_result_def Let_def)
next
  fix r e
  assume h: "subprocess_run E (run_args S) = Inr r \<and> returncode r = 0
           \<and> strip (stdout r) \<noteq> [] \<and> json_loads E (stdout r) = Inl e"
  with assms(2) have "isinstance e Exception"
    by blast
  with h show "snd (check_genome_count E S) = Inr PNone"
    by (simp add: decode_fault_is_error)
qed

theorem no_fault_escapes_witness:
  "snd (check_genome_count denied_env ''Escherichia coli'') = Inr PNone"
proof -
  let ?e = "Exn PermissionError
              (''[Errno 13] Permission denied: '' @ quote @ ''datasets'' @ quote)"
  have launch: "\<forall>c e. subprocess_run denied_env c = Inl e \<longrightarrow> isinstance e Exception"
    by (simp add: denied_env_def launch_fault_env_def isinstance_def)
  have decoder: "\<forall>t e. json_loads denied_env t = Inl e \<longrightarrow> isinstance e Exception"
    by (simp add: denied_env_def launch_fault_env_def expecting_value_def isinstance_def)
  have "subprocess_run denied_env (run_args ''Escherichia coli'') = Inl ?e"
    by (simp add: denied_env_def launch_fault_env_def)
  then show ?thesis
    using no_fault_escapes [OF launch decoder, of "''Escherichia coli''"]
    by blast
qed

end
